theory Spec2Isabelle
  imports Complex_Main "HOL-Library.Log_Nat"
begin

section \<open>Region extraction: boxes, tiles and patch boxes (anomalib/models/rbad/region.py)\<close>

text \<open>
  The development embeds the geometric routines of \<^verbatim>\<open>region.py\<close>:
  \<^verbatim>\<open>tiled_boxes\<close>, \<^verbatim>\<open>update_box_sizes_following_image_resize\<close>,
  \<^verbatim>\<open>convert_to_patch_boxes\<close>, \<^verbatim>\<open>RegionExtractor.postprocess_detections\<close> and
  \<^verbatim>\<open>RegionExtractor.forward\<close>.

  Conventions.
  \<^item> A box is a row \<open>(x1, y1, x2, y2)\<close> of a tensor of shape \<open>N \<times> 4\<close>; a tensor is the
    list of its rows.
  \<^item> Every \<^verbatim>\<open>raise\<close>, failing \<^verbatim>\<open>assert\<close> and failing index is a value
    \<open>Inl e\<close> of the result type \<open>error + 'a\<close>.
  \<^item> \<^verbatim>\<open>tiled_boxes\<close> computes tile origins with float64 division and multiplication;
    these two operations are modelled with IEEE 754 rounding (\<open>fl64\<close> below), since the
    integer origins depend on it.
  \<^item> The torch tensors handled by the box routines (float32 and int32) are modelled with
    \<open>real\<close> and \<open>int\<close> coordinates: the model is exact for coordinates below \<open>2^24\<close> in
    magnitude, where neither int32 wrap-around nor float32 rounding occurs.
\<close>

subsection \<open>Errors\<close>

datatype error =
    ValueError
  | AssertionError
  | IndexError
  | ZeroDivisionError
  | AttributeError
  | RuntimeError
  | InvalidCast

text \<open>Sequencing of fallible steps: the first error ends the computation.\<close>

definition bnd :: "error + 'a \<Rightarrow> ('a \<Rightarrow> error + 'b) \<Rightarrow> error + 'b" where
  "bnd m f = (case m of Inl e \<Rightarrow> Inl e | Inr v \<Rightarrow> f v)"

fun sequence :: "(error + 'a) list \<Rightarrow> error + 'a list" where
  "sequence [] = Inr []"
| "sequence (m # ms) = bnd m (\<lambda>v. bnd (sequence ms) (\<lambda>vs. Inr (v # vs)))"

type_synonym ibox = "int \<times> int \<times> int \<times> int"
type_synonym fbox = "real \<times> real \<times> real \<times> real"

subsection \<open>float64 arithmetic as used by the tiler\<close>

text \<open>
  A float64 value is a rational with a 53-bit significand, an infinity or NaN.
  \<open>fl64 x\<close> rounds the exact result \<open>x\<close> to the nearest such rational, ties to the even
  significand, which is what IEEE 754 prescribes for \<open>/\<close> and \<open>*\<close>. Overflow and
  subnormals do not arise for quotients and products of array dimensions.
\<close>

datatype float64 = Finite rat | PosInf | NegInf | NaN

definition round_half_even :: "rat \<Rightarrow> int" where
  "round_half_even x =
     (let f = \<lfloor>x\<rfloor>; d = x - of_int f
      in if d < 1 / 2 then f
         else if 1 / 2 < d then f + 1
         else if even f then f else f + 1)"

definition pow2 :: "int \<Rightarrow> rat" where
  "pow2 e = (if 0 \<le> e then 2 ^ nat e else 1 / 2 ^ nat (- e))"

text \<open>\<open>ilog2 x\<close> is the exponent \<open>e\<close> with \<open>2^e \<le> |x| < 2^(e+1)\<close>, for \<open>x \<noteq> 0\<close>.\<close>

definition ilog2 :: "rat \<Rightarrow> int" where
  "ilog2 x =
     (let (p, q) = quotient_of \<bar>x\<bar>;
          d = bitlen p - bitlen q
      in if pow2 d \<le> \<bar>x\<bar> then d else d - 1)"

definition fl64 :: "rat \<Rightarrow> rat" where
  "fl64 x =
     (if x = 0 then 0
      else let u = pow2 (ilog2 x - 52)
           in of_int (round_half_even (x / u)) * u)"

text \<open>Python \<^verbatim>\<open>int / int\<close>: the correctly rounded quotient, ZeroDivisionError on 0.\<close>

definition py_truediv :: "int \<Rightarrow> int \<Rightarrow> error + float64" where
  "py_truediv a b =
     (if b = 0 then Inl ZeroDivisionError
      else Inr (Finite (fl64 (of_int a / of_int b))))"

text \<open>
  \<^verbatim>\<open>int / numpy.int64\<close>: both operands become float64 and are divided; a zero divisor
  gives NaN or an infinity (with a RuntimeWarning), not an exception.
\<close>

definition np_truediv :: "int \<Rightarrow> int \<Rightarrow> float64" where
  "np_truediv a b =
     (if b \<noteq> 0 then Finite (fl64 (fl64 (of_int a) / fl64 (of_int b)))
      else if a = 0 then NaN
      else if 0 < a then PosInf else NegInf)"

text \<open>\<^verbatim>\<open>int * numpy.float64\<close>.\<close>

definition np_mul :: "int \<Rightarrow> float64 \<Rightarrow> float64" where
  "np_mul k x =
     (case x of
        Finite v \<Rightarrow> Finite (fl64 (fl64 (of_int k) * v))
      | PosInf \<Rightarrow> (if k = 0 then NaN else if 0 < k then PosInf else NegInf)
      | NegInf \<Rightarrow> (if k = 0 then NaN else if 0 < k then NegInf else PosInf)
      | NaN \<Rightarrow> NaN)"

definition np_floor :: "float64 \<Rightarrow> float64" where
  "np_floor x = (case x of Finite v \<Rightarrow> Finite (of_int \<lfloor>v\<rfloor>) | _ \<Rightarrow> x)"

definition np_ceil :: "float64 \<Rightarrow> float64" where
  "np_ceil x = (case x of Finite v \<Rightarrow> Finite (of_int \<lceil>v\<rceil>) | _ \<Rightarrow> x)"

text \<open>
  \<^verbatim>\<open>.astype(np.int32)\<close> and \<^verbatim>\<open>.astype(np.int64)\<close> truncate towards zero. The cast
  of NaN, of an infinity or of a value outside the target range yields an unspecified
  integer; the model stops there with \<open>InvalidCast\<close>.
\<close>

definition astype_int :: "nat \<Rightarrow> float64 \<Rightarrow> error + int" where
  "astype_int bits x =
     (case x of
        Finite v \<Rightarrow>
          (let t = (if 0 \<le> v then \<lfloor>v\<rfloor> else \<lceil>v\<rceil>)
           in if - (2 ^ (bits - 1)) \<le> t \<and> t < 2 ^ (bits - 1) then Inr t
              else Inl InvalidCast)
      | _ \<Rightarrow> Inl InvalidCast)"

subsection \<open>The tiler: \<^verbatim>\<open>tiled_boxes\<close>\<close>

text \<open>
  \<^verbatim>\<open>tile_row = np.floor(r * tile_stride_r).astype(np.int32)\<close>, and the same for columns.
\<close>

definition tile_origin :: "float64 \<Rightarrow> nat \<Rightarrow> error + int" where
  "tile_origin tile_stride k = astype_int 32 (np_floor (np_mul (int k) tile_stride))"

text \<open>\<^verbatim>\<open>np.ceil(frame_size / isize).astype(np.int64)\<close>.\<close>

definition tile_count :: "nat \<Rightarrow> nat \<Rightarrow> error + int" where
  "tile_count frame_dim isize =
     bnd (py_truediv (int frame_dim) (int isize)) (\<lambda>q. astype_int 64 (np_ceil q))"

text \<open>
  \<open>tiled_boxes (rows, cols) isize\<close>: the frame enters through \<^verbatim>\<open>frame.shape[:2]\<close> only.
  The two strides are computed before the loops; the double loop fills row
  \<^verbatim>\<open>tile_count_c * r + c\<close> of the result, which is the order of the nested map.
\<close>

definition tiled_boxes :: "nat \<times> nat \<Rightarrow> nat \<Rightarrow> error + ibox list" where
  "tiled_boxes frame_size_rc isize =
     (case frame_size_rc of (rows, cols) \<Rightarrow>
      bnd (tile_count rows isize) (\<lambda>tile_count_r.
      bnd (tile_count cols isize) (\<lambda>tile_count_c.
        let tile_stride_r = np_truediv (int rows - int isize) (tile_count_r - 1);
            tile_stride_c = np_truediv (int cols - int isize) (tile_count_c - 1)
        in sequence (concat (map (\<lambda>r. map (\<lambda>c.
             bnd (tile_origin tile_stride_r r) (\<lambda>tile_row.
             bnd (tile_origin tile_stride_c c) (\<lambda>tile_col.
               Inr (tile_col, tile_row, tile_col + int isize, tile_row + int isize))))
             [0..<nat tile_count_c]) [0..<nat tile_count_r])))))"

text \<open>A tile covers the pixels \<open>x1 \<le> col < x2\<close>, \<open>y1 \<le> row < y2\<close>.\<close>

definition tile_covers :: "nat \<Rightarrow> nat \<Rightarrow> ibox \<Rightarrow> bool" where
  "tile_covers row col b =
     (case b of (x1, y1, x2, y2) \<Rightarrow>
        x1 \<le> int col \<and> int col < x2 \<and> y1 \<le> int row \<and> int row < y2)"

definition pixel_covered :: "ibox list \<Rightarrow> nat \<Rightarrow> nat \<Rightarrow> bool" where
  "pixel_covered tiles row col = list_ex (tile_covers row col) tiles"

subsection \<open>Rescaling: \<^verbatim>\<open>update_box_sizes_following_image_resize\<close>\<close>

text \<open>
  Sizes are \<open>(height, width)\<close> pairs of Python integers. The ratios are
  \<^verbatim>\<open>float(s) / float(s_orig)\<close>, height first, so a zero original dimension raises
  ZeroDivisionError before any box is touched. The function builds a new tensor
  (\<^verbatim>\<open>torch.stack\<close>) and leaves its argument alone.
\<close>

definition update_box_sizes_following_image_resize ::
  "fbox list \<Rightarrow> int \<times> int \<Rightarrow> int \<times> int \<Rightarrow> error + fbox list" where
  "update_box_sizes_following_image_resize boxes original_size new_size =
     (case original_size of (height_orig, width_orig) \<Rightarrow>
      case new_size of (height_new, width_new) \<Rightarrow>
        if height_orig = 0 \<or> width_orig = 0 then Inl ZeroDivisionError
        else
          let ratio_height = real_of_int height_new / real_of_int height_orig;
              ratio_width = real_of_int width_new / real_of_int width_orig
          in Inr (map (\<lambda>(xmin, ymin, xmax, ymax).
                    (xmin * ratio_width, ymin * ratio_height,
                     xmax * ratio_width, ymax * ratio_height)) boxes))"

subsection \<open>Patch boxes: \<^verbatim>\<open>convert_to_patch_boxes\<close>\<close>

text \<open>\<^verbatim>\<open>torch.round\<close> rounds to the nearest integer, halves to the even neighbour.\<close>

definition torch_round :: "real \<Rightarrow> int" where
  "torch_round x =
     (let f = \<lfloor>x\<rfloor>; d = x - of_int f
      in if d < 1 / 2 then f
         else if 1 / 2 < d then f + 1
         else if even f then f else f + 1)"

text \<open>\<^verbatim>\<open>boxes.round_()\<close> followed by \<^verbatim>\<open>.to(torch.int32)\<close>, on one row.\<close>

definition round_box :: "fbox \<Rightarrow> ibox" where
  "round_box b =
     (case b of (x1, y1, x2, y2) \<Rightarrow>
        (torch_round x1, torch_round y1, torch_round x2, torch_round y2))"

definition to_float :: "ibox \<Rightarrow> fbox" where
  "to_float b =
     (case b of (x1, y1, x2, y2) \<Rightarrow>
        (real_of_int x1, real_of_int y1, real_of_int x2, real_of_int y2))"

definition box_width :: "ibox \<Rightarrow> int" where
  "box_width b = (case b of (x1, y1, x2, y2) \<Rightarrow> x2 - x1)"

definition box_height :: "ibox \<Rightarrow> int" where
  "box_height b = (case b of (x1, y1, x2, y2) \<Rightarrow> y2 - y1)"

text \<open>
  \<^verbatim>\<open>x2[(widths % 2) == 1] += 1\<close> and \<^verbatim>\<open>y2[(heights % 2) == 1] += 1\<close>: \<^verbatim>\<open>x2\<close> and
  \<^verbatim>\<open>y2\<close> are views of the int32 tensor, so the increments land in it. The remainder
  has the sign of the divisor, as \<open>mod\<close> on \<open>int\<close> has.
\<close>

definition make_even :: "ibox \<Rightarrow> ibox" where
  "make_even b =
     (case b of (x1, y1, x2, y2) \<Rightarrow>
        (x1, y1,
         (if (x2 - x1) mod 2 = 1 then x2 + 1 else x2),
         (if (y2 - y1) mod 2 = 1 then y2 + 1 else y2)))"

text \<open>
  \<^verbatim>\<open>deltas[:, 0] = (widths - target_side_length) / 2\<close>: the quotient is a float;
  storing it into the int32 tensor \<^verbatim>\<open>deltas\<close> truncates towards zero.
\<close>

definition half_trunc :: "int \<Rightarrow> int" where
  "half_trunc n = (if 0 \<le> n then n div 2 else - ((- n) div 2))"

definition add_deltas :: "int \<Rightarrow> ibox \<Rightarrow> ibox" where
  "add_deltas target_side_length b =
     (case b of (x1, y1, x2, y2) \<Rightarrow>
        let widths = x2 - x1; heights = y2 - y1
        in (x1 + half_trunc (widths - target_side_length),
            y1 + half_trunc (heights - target_side_length),
            x2 + half_trunc (target_side_length - widths),
            y2 + half_trunc (target_side_length - heights)))"

text \<open>
  The four clamps. Each computes \<^verbatim>\<open>overhang\<close>, sets its negative entries to 0 and
  shifts both coordinates of the axis by it.
\<close>

definition clamp_low_x :: "ibox \<Rightarrow> ibox" where
  "clamp_low_x b =
     (case b of (x1, y1, x2, y2) \<Rightarrow>
        let overhang = (if x1 * (- 1) < 0 then 0 else x1 * (- 1))
        in (x1 + overhang, y1, x2 + overhang, y2))"

definition clamp_low_y :: "ibox \<Rightarrow> ibox" where
  "clamp_low_y b =
     (case b of (x1, y1, x2, y2) \<Rightarrow>
        let overhang = (if y1 * (- 1) < 0 then 0 else y1 * (- 1))
        in (x1, y1 + overhang, x2, y2 + overhang))"

definition clamp_high_x :: "int \<Rightarrow> ibox \<Rightarrow> ibox" where
  "clamp_high_x frame_width b =
     (case b of (x1, y1, x2, y2) \<Rightarrow>
        let overhang = (if x2 - frame_width + 1 < 0 then 0 else x2 - frame_width + 1)
        in (x1 - overhang, y1, x2 - overhang, y2))"

definition clamp_high_y :: "int \<Rightarrow> ibox \<Rightarrow> ibox" where
  "clamp_high_y frame_height b =
     (case b of (x1, y1, x2, y2) \<Rightarrow>
        let overhang = (if y2 - frame_height + 1 < 0 then 0 else y2 - frame_height + 1)
        in (x1, y1 - overhang, x2, y2 - overhang))"

definition patch_box :: "int \<times> int \<Rightarrow> int \<Rightarrow> ibox \<Rightarrow> fbox" where
  "patch_box frame_size target_side_length b =
     (case frame_size of (frame_height, frame_width) \<Rightarrow>
        to_float (clamp_high_y frame_height (clamp_high_x frame_width
          (clamp_low_y (clamp_low_x (add_deltas target_side_length b))))))"

text \<open>
  \<open>convert_to_patch_boxes boxes frame_size target_side_length\<close> returns a pair: the
  contents of the caller's tensor \<^verbatim>\<open>boxes\<close> after the call, and the outcome of the call.
  The first statement, \<^verbatim>\<open>boxes = boxes.round_().to(torch.int32)\<close>, rounds the caller's
  float tensor in place and then rebinds the local name to a fresh int32 copy; all later
  writes go to that copy or to tensors created after it. The assertion on the parity of
  \<^verbatim>\<open>target_side_length\<close> comes after the rounding. \<^verbatim>\<open>frame_size\<close> is
  \<open>(height, width)\<close>; the \<^verbatim>\<open>isinstance\<close> assertions hold by the types.
\<close>

definition convert_to_patch_boxes ::
  "fbox list \<Rightarrow> int \<times> int \<Rightarrow> int \<Rightarrow> fbox list \<times> (error + fbox list)" where
  "convert_to_patch_boxes boxes frame_size target_side_length =
     (let rounded = map round_box boxes
      in (map to_float rounded,
          if target_side_length mod 2 \<noteq> 0 then Inl AssertionError
          else
            let evened = map make_even rounded
            in if \<not> list_all (\<lambda>b. box_width b mod 2 = 0) evened then Inl AssertionError
               else if \<not> list_all (\<lambda>b. box_height b mod 2 = 0) evened then Inl AssertionError
               else Inr (map (patch_box frame_size target_side_length) evened)))"

text \<open>Extent of a float box, and containment in the closed pixel range of a frame.\<close>

definition fbox_width :: "fbox \<Rightarrow> real" where
  "fbox_width b = (case b of (x1, y1, x2, y2) \<Rightarrow> x2 - x1)"

definition fbox_height :: "fbox \<Rightarrow> real" where
  "fbox_height b = (case b of (x1, y1, x2, y2) \<Rightarrow> y2 - y1)"



subsection \<open>Box operations of the detection library\<close>

text \<open>
  Modelled from the spec: \<^verbatim>\<open>box_ops.clip_boxes_to_image\<close>,
  \<^verbatim>\<open>box_ops.remove_small_boxes\<close> and \<^verbatim>\<open>box_ops.nms\<close> are called by
  \<^verbatim>\<open>region.py\<close> and defined in torchvision. Their models follow the geometry
  utilities of the specification: clipping clamps each coordinate into
  \<open>[0, width] \<times> [0, height]\<close>; the size filter removes the boxes whose width or height
  is strictly less than \<open>min_size\<close> and returns the indices it keeps; NMS sorts by score,
  descending and stable, then repeatedly selects the best remaining box and discards the
  others whose IoU with it exceeds the threshold. Boxes and scores are parallel sequences
  of equal length; NMS on sequences of different lengths is an error.
\<close>

definition clip_box :: "int \<times> int \<Rightarrow> fbox \<Rightarrow> fbox" where
  "clip_box image_size b =
     (case image_size of (height, width) \<Rightarrow>
      case b of (x1, y1, x2, y2) \<Rightarrow>
        (min (max x1 0) (real_of_int width), min (max y1 0) (real_of_int height),
         min (max x2 0) (real_of_int width), min (max y2 0) (real_of_int height)))"

definition clip_boxes_to_image :: "fbox list \<Rightarrow> int \<times> int \<Rightarrow> fbox list" where
  "clip_boxes_to_image boxes image_size = map (clip_box image_size) boxes"

definition remove_small_boxes :: "fbox list \<Rightarrow> real \<Rightarrow> nat list" where
  "remove_small_boxes boxes min_size =
     filter (\<lambda>i. min_size \<le> fbox_width (boxes ! i) \<and> min_size \<le> fbox_height (boxes ! i))
       [0..<length boxes]"

definition box_area :: "fbox \<Rightarrow> real" where
  "box_area b = fbox_width b * fbox_height b"

definition iou :: "fbox \<Rightarrow> fbox \<Rightarrow> real" where
  "iou a b =
     (case a of (ax1, ay1, ax2, ay2) \<Rightarrow>
      case b of (bx1, by1, bx2, by2) \<Rightarrow>
        let inter = max 0 (min ax2 bx2 - max ax1 bx1) * max 0 (min ay2 by2 - max ay1 by1)
        in inter / (box_area a + box_area b - inter))"

fun nms_greedy :: "real \<Rightarrow> (nat \<times> fbox) list \<Rightarrow> nat list" where
  "nms_greedy iou_threshold [] = []"
| "nms_greedy iou_threshold (ib # rest) =
     fst ib # nms_greedy iou_threshold
       (filter (\<lambda>jc. \<not> iou_threshold < iou (snd ib) (snd jc)) rest)"

definition nms :: "fbox list \<Rightarrow> real list \<Rightarrow> real \<Rightarrow> error + nat list" where
  "nms boxes scores iou_threshold =
     (if length scores \<noteq> length boxes then Inl RuntimeError
      else Inr (nms_greedy iou_threshold
             (map (\<lambda>i. (i, boxes ! i))
                (sort_key (\<lambda>i. - (scores ! i)) [0..<length boxes]))))"

text \<open>Tensor indexing by a tensor of indices, \<^verbatim>\<open>boxes[keep]\<close>.\<close>

definition index_select :: "'a list \<Rightarrow> nat list \<Rightarrow> error + 'a list" where
  "index_select xs keep =
     (if list_all (\<lambda>i. i < length xs) keep then Inr (map (nth xs) keep)
      else Inl IndexError)"

text \<open>\<^verbatim>\<open>tensor.split(sizes, 0)\<close>: the sizes must add up to the number of rows.\<close>

fun split_sizes :: "'a list \<Rightarrow> nat list \<Rightarrow> error + 'a list list" where
  "split_sizes xs [] = (if xs = [] then Inr [] else Inl RuntimeError)"
| "split_sizes xs (n # ns) =
     (if length xs < n then Inl RuntimeError
      else bnd (split_sizes (drop n xs) ns) (\<lambda>parts. Inr (take n xs # parts)))"

subsection \<open>The extractor and the network it wraps\<close>

datatype stage = Rpn | Rcnn

text \<open>
  The attributes of a \<^verbatim>\<open>RegionExtractor\<close> that \<^verbatim>\<open>forward\<close> reads. \<open>training\<close> is the
  mode flag of \<^verbatim>\<open>nn.Module\<close>.
\<close>

record extractor =
  training :: bool
  use_original :: bool
  stage :: stage
  patch_mode :: bool
  min_size :: real
  stage_nms_thresh :: real
  rcnn_score_thresh :: real
  rcnn_detections_per_img :: nat
  patch_side_length :: int
  patch_nms_thresh :: real

text \<open>\<^verbatim>\<open>torch.arange(1000, 0, -1, dtype=torch.float32)\<close>: the values 1000, 999, ..., 1.\<close>

definition pseudo_scores :: "real list" where
  "pseudo_scores = map real (rev [1..<1001])"

text \<open>
  An element of the argument \<^verbatim>\<open>cv2_images\<close> is a numpy array, with its shape and pixel
  data, or some other object; the argument itself is a list or some other object.
\<close>

datatype 'p pyobj = Ndarray "nat list" 'p | NotArray

datatype 'p argument = PyList "'p pyobj list" | NotList

type_synonym 'p input = "nat list \<times> 'p"

text \<open>
  The pretrained Faster R-CNN is external. Its parts are parameters:
  \<^item> \<open>base_model\<close>: the boxes of the complete detector, per image;
  \<^item> \<open>image_sizes\<close>: the sizes \<open>(height, width)\<close> after \<^verbatim>\<open>self.transform\<close>;
  \<^item> \<open>proposals\<close>: \<^verbatim>\<open>self.rpn\<close> on the backbone features, boxes per image;
  \<^item> \<open>box_predictor\<close>: \<^verbatim>\<open>box_roi_pool\<close>, \<^verbatim>\<open>box_head\<close> and \<^verbatim>\<open>box_predictor\<close>,
    giving the class logits (one row per proposal) and the box regression;
  \<^item> \<open>box_coder_decode\<close>: \<^verbatim>\<open>self.box_coder.decode\<close>, one row of per-class boxes per
    proposal;
  \<^item> \<open>softmax\<close>: \<^verbatim>\<open>F.softmax(class_logits, -1)\<close>, the scores row by row.
\<close>

record ('p, 'r) network =
  base_model :: "'p input list \<Rightarrow> fbox list list"
  image_sizes :: "'p input list \<Rightarrow> (int \<times> int) list"
  proposals :: "'p input list \<Rightarrow> fbox list list"
  box_predictor :: "'p input list \<Rightarrow> fbox list list \<Rightarrow> real list list \<times> 'r"
  box_coder_decode :: "'r \<Rightarrow> fbox list list \<Rightarrow> fbox list list"
  softmax :: "real list list \<Rightarrow> real list list"

text \<open>
  The conversion loop of \<^verbatim>\<open>forward\<close>: \<^verbatim>\<open>astype\<close>, \<^verbatim>\<open>from_numpy\<close> and
  \<^verbatim>\<open>permute(2, 0, 1)\<close>, which needs three dimensions. The result has shape
  \<open>(channels, height, width)\<close>.
\<close>

definition to_input :: "'p pyobj \<Rightarrow> error + 'p input" where
  "to_input img =
     (case img of
        NotArray \<Rightarrow> Inl AttributeError
      | Ndarray shape pixels \<Rightarrow>
          if length shape \<noteq> 3 then Inl RuntimeError
          else Inr ([shape ! 2, shape ! 0, shape ! 1], pixels))"

text \<open>\<^verbatim>\<open>img.shape[-2:]\<close> of a converted image.\<close>

definition original_image_size :: "'p input \<Rightarrow> int \<times> int" where
  "original_image_size img = (int (fst img ! 1), int (fst img ! 2))"

subsection \<open>\<^verbatim>\<open>RegionExtractor.postprocess_detections\<close>\<close>

text \<open>The body of the loop over images; \<open>boxes\<close> and \<open>scores\<close> have one row per proposal.\<close>

definition postprocess_image ::
  "extractor \<Rightarrow> nat \<Rightarrow> fbox list list \<Rightarrow> real list list \<Rightarrow> int \<times> int \<Rightarrow>
   error + (fbox list \<times> real list \<times> nat list)" where
  "postprocess_image self num_classes boxes scores image_shape =
     (let boxes = map (\<lambda>row. clip_boxes_to_image row image_shape) boxes;
          labels = map (\<lambda>row. [0..<num_classes]) scores;
          boxes = map tl boxes;
          scores = map tl scores;
          labels = map tl labels;
          boxes = concat boxes;
          scores = concat scores;
          labels = concat labels;
          inds = filter (\<lambda>i. rcnn_score_thresh self < scores ! i) [0..<length scores]
      in bnd (index_select boxes inds) (\<lambda>boxes.
         bnd (index_select scores inds) (\<lambda>scores.
         bnd (index_select labels inds) (\<lambda>labels.
         let keep = remove_small_boxes boxes (min_size self)
         in bnd (index_select boxes keep) (\<lambda>boxes.
            bnd (index_select scores keep) (\<lambda>scores.
            bnd (index_select labels keep) (\<lambda>labels.
            bnd (nms boxes scores (stage_nms_thresh self)) (\<lambda>keep.
            let keep = take (rcnn_detections_per_img self) keep
            in bnd (index_select boxes keep) (\<lambda>boxes.
               bnd (index_select scores keep) (\<lambda>scores.
               bnd (index_select labels keep) (\<lambda>labels.
               Inr (boxes, scores, labels))))))))))))"

definition postprocess_detections ::
  "extractor \<Rightarrow> ('p, 'r) network \<Rightarrow> real list list \<Rightarrow> 'r \<Rightarrow> fbox list list \<Rightarrow>
   (int \<times> int) list \<Rightarrow> error + (fbox list \<times> real list \<times> nat list) list" where
  "postprocess_detections self net class_logits box_regression props image_shapes =
     (let num_classes = (case class_logits of [] \<Rightarrow> 0 | row # _ \<Rightarrow> length row);
          boxes_per_image = map length props;
          pred_boxes = box_coder_decode net box_regression props;
          pred_scores = softmax net class_logits
      in bnd (split_sizes pred_boxes boxes_per_image) (\<lambda>pred_boxes.
         bnd (split_sizes pred_scores boxes_per_image) (\<lambda>pred_scores.
         sequence (map (\<lambda>(boxes, scores, image_shape).
                      postprocess_image self num_classes boxes scores image_shape)
                    (zip pred_boxes (zip pred_scores image_shapes))))))"

subsection \<open>\<^verbatim>\<open>RegionExtractor.forward\<close>\<close>

text \<open>
  The patch step shared by both stages: \<^verbatim>\<open>convert_to_patch_boxes\<close>, then NMS with the
  first \<^verbatim>\<open>boxes.shape[0]\<close> pseudo scores. It yields the boxes before suppression and the
  indices kept. The tensor handed to \<^verbatim>\<open>convert_to_patch_boxes\<close> is the fresh result of
  the rescaling, so its in-place rounding is not seen elsewhere.
\<close>

definition patch_step :: "extractor \<Rightarrow> fbox list \<Rightarrow> int \<times> int \<Rightarrow> error + (fbox list \<times> nat list)" where
  "patch_step self boxes original_size =
     bnd (snd (convert_to_patch_boxes boxes original_size (patch_side_length self))) (\<lambda>boxes.
     bnd (nms boxes (take (length boxes) pseudo_scores) (patch_nms_thresh self)) (\<lambda>keep.
     Inr (boxes, keep)))"

text \<open>The loop body of the stage \<^verbatim>\<open>"rpn"\<close>.\<close>

definition rpn_image :: "extractor \<Rightarrow> fbox list \<Rightarrow> int \<times> int \<Rightarrow> int \<times> int \<Rightarrow> error + fbox list" where
  "rpn_image self boxes original_size new_image_size =
     (let boxes = clip_boxes_to_image boxes new_image_size;
          keep = remove_small_boxes boxes (min_size self)
      in bnd (index_select boxes keep) (\<lambda>boxes.
         bnd (nms boxes (take (length boxes) pseudo_scores) (stage_nms_thresh self)) (\<lambda>keep.
         bnd (index_select boxes keep) (\<lambda>boxes.
         bnd (update_box_sizes_following_image_resize boxes new_image_size original_size) (\<lambda>boxes.
         if patch_mode self then
           bnd (patch_step self boxes original_size) (\<lambda>(boxes, keep). index_select boxes keep)
         else Inr boxes)))))"

text \<open>The loop body of the stage \<^verbatim>\<open>"rcnn"\<close>; it yields boxes and scores.\<close>

definition rcnn_image ::
  "extractor \<Rightarrow> fbox list \<Rightarrow> real list \<Rightarrow> int \<times> int \<Rightarrow> int \<times> int \<Rightarrow>
   error + (fbox list \<times> real list)" where
  "rcnn_image self boxes scores original_size new_image_size =
     bnd (update_box_sizes_following_image_resize boxes new_image_size original_size) (\<lambda>boxes.
     if patch_mode self then
       bnd (patch_step self boxes original_size) (\<lambda>(boxes, keep).
       bnd (index_select boxes keep) (\<lambda>boxes.
       bnd (index_select scores keep) (\<lambda>scores.
       Inr (boxes, scores))))
     else Inr (boxes, scores))"

text \<open>
  What \<^verbatim>\<open>forward\<close> returns: the list of box arrays of \<^verbatim>\<open>base_model\<close> when
  \<^verbatim>\<open>use_original\<close> is set, and otherwise the single array \<^verbatim>\<open>output_boxes[0]\<close>.
\<close>

datatype returned = ArrayList "fbox list list" | Array "fbox list"

text \<open>
  The two stages, from the proposals to the \<^verbatim>\<open>return\<close>. Both build \<^verbatim>\<open>output_boxes\<close>
  (the stage \<^verbatim>\<open>"rcnn"\<close> also \<^verbatim>\<open>output_scores\<close>) for all images and return
  \<^verbatim>\<open>output_boxes[0]\<close>.
\<close>

definition forward_stage ::
  "extractor \<Rightarrow> ('p, 'r) network \<Rightarrow> 'p input list \<Rightarrow> error + returned" where
  "forward_stage self net input_list =
     (let original_image_sizes = map original_image_size input_list;
          new_image_sizes = image_sizes net input_list;
          props = proposals net input_list
      in case stage self of
           Rpn \<Rightarrow>
             bnd (sequence (map (\<lambda>(boxes, original_size, new_image_size).
                                  rpn_image self boxes original_size new_image_size)
                     (zip props (zip original_image_sizes new_image_sizes)))) (\<lambda>output_boxes.
             case output_boxes of [] \<Rightarrow> Inl IndexError | first # _ \<Rightarrow> Inr (Array first))
         | Rcnn \<Rightarrow>
             (case box_predictor net input_list props of (class_logits, box_regression) \<Rightarrow>
              bnd (postprocess_detections self net class_logits box_regression props
                     new_image_sizes) (\<lambda>detections.
              bnd (sequence (map (\<lambda>((boxes, scores, labels), original_size, new_image_size).
                                   rcnn_image self boxes scores original_size new_image_size)
                      (zip detections (zip original_image_sizes new_image_sizes)))) (\<lambda>outputs.
              let output_boxes = map fst outputs;
                  output_scores = map snd outputs
              in case output_boxes of [] \<Rightarrow> Inl IndexError | first # _ \<Rightarrow> Inr (Array first)))))"

definition forward :: "extractor \<Rightarrow> ('p, 'r) network \<Rightarrow> 'p argument \<Rightarrow> error + returned" where
  "forward self net cv2_images =
     (if training self then Inl ValueError
      else case cv2_images of
             NotList \<Rightarrow> Inl AssertionError
           | PyList images \<Rightarrow>
               (case images of
                  [] \<Rightarrow> Inl IndexError
                | NotArray # _ \<Rightarrow> Inl AssertionError
                | Ndarray shape pixels # _ \<Rightarrow>
                    if length shape \<noteq> 3 then Inl AssertionError
                    else if shape ! 2 \<noteq> 3 then Inl AssertionError
                    else bnd (sequence (map to_input images)) (\<lambda>input_list.
                         if use_original self then Inr (ArrayList (base_model net input_list))
                         else forward_stage self net input_list)))"

subsection \<open>A test double for the network\<close>

text \<open>
  A network whose frames carry their own candidate boxes as pixel data: it leaves the
  image size unchanged, proposes the boxes a frame carries, gives two classes with equal
  logits, hence equal scores, and decodes every proposal to itself for both classes.
\<close>

definition mock_network :: "(fbox list, unit) network" where
  "mock_network =
     \<lparr> base_model = map snd,
       image_sizes = map original_image_size,
       proposals = map snd,
       box_predictor = (\<lambda>inputs props. (map (\<lambda>b. [0, 0]) (concat props), ())),
       box_coder_decode = (\<lambda>r props. map (\<lambda>b. [b, b]) (concat props)),
       softmax = map (\<lambda>row. map (\<lambda>x. 1 / real (length row)) row) \<rparr>"

definition eval_extractor :: "stage \<Rightarrow> extractor" where
  "eval_extractor s =
     \<lparr> training = False, use_original = False, stage = s, patch_mode = False,
       min_size = 25, stage_nms_thresh = 3 / 10, rcnn_score_thresh = 2 / 10,
       rcnn_detections_per_img = 100, patch_side_length = 32, patch_nms_thresh = 3 / 10 \<rparr>"

section \<open>Properties\<close>

subsection \<open>Patch boxes\<close>












lemmas patch_defs =
  convert_to_patch_boxes_def round_box_def torch_round_def to_float_def make_even_def
  box_width_def box_height_def add_deltas_def half_trunc_def clamp_low_x_def clamp_low_y_def
  clamp_high_x_def clamp_high_y_def patch_box_def Let_def






text \<open>
  C9. \<^verbatim>\<open>convert_to_patch_boxes\<close> rounds the caller's tensor in place: whatever the
  frame size and the side length, and whether or not the call then fails, the caller's
  tensor afterwards holds the rounded coordinates of its rows.
\<close>

theorem convert_to_patch_boxes_rounds_in_place:
  "fst (convert_to_patch_boxes boxes frame_size T) = map (\<lambda>b. to_float (round_box b)) boxes"
  by (simp add: convert_to_patch_boxes_def Let_def)

theorem convert_to_patch_boxes_rounds_in_place_witness:
  "fst (convert_to_patch_boxes [(4 / 10, 16 / 10, 5 / 2, 7 / 2)] (100, 100) 31) =
     [(0, 2, 2, 4)] \<and>
   snd (convert_to_patch_boxes [(4 / 10, 16 / 10, 5 / 2, 7 / 2)] (100, 100) 31) =
     Inl AssertionError"
  using convert_to_patch_boxes_rounds_in_place
          [of "[(4 / 10, 16 / 10, 5 / 2, 7 / 2)]" "(100, 100)" 31]
  by (simp add: patch_defs)

subsection \<open>The tiler\<close>

text \<open>Tile counts, strides and origins at the inputs used below, evaluated step by step.\<close>

lemma tile_count_values:
  "tile_count 64 32 = Inr 2"
  "tile_count 32 32 = Inr 1"
  "tile_count 20 32 = Inr 1"
  "tile_count 100 32 = Inr 4"
  "tile_count 71 10 = Inr 8"
  "tile_count 20 10 = Inr 2"
  by code_simp+

lemma tile_stride_values:
  "np_truediv 32 1 = Finite 32"
  "np_truediv 10 1 = Finite 10"
  "np_truediv 61 7 = Finite (4905706736957147 / 562949953421312)"
  by code_simp+

text \<open>The product behind the last row origin: \<open>7 * stride\<close> is rounded below 61.\<close>

lemma last_row_product:
  "np_mul 7 (Finite (4905706736957147 / 562949953421312)) =
     Finite (8584986789675007 / 140737488355328)"
  "(8584986789675007 :: rat) / 140737488355328 < 61"
  by code_simp+

lemma tile_origins_64:
  "tile_origin (Finite 32) 0 = Inr 0"
  "tile_origin (Finite 32) 1 = Inr 32"
  by code_simp+

lemma tile_origins_20:
  "tile_origin (Finite 10) 0 = Inr 0"
  "tile_origin (Finite 10) 1 = Inr 10"
  by code_simp+

lemma tile_origins_71:
  "tile_origin (Finite (4905706736957147 / 562949953421312)) 0 = Inr 0"
  "tile_origin (Finite (4905706736957147 / 562949953421312)) 1 = Inr 8"
  "tile_origin (Finite (4905706736957147 / 562949953421312)) 2 = Inr 17"
  "tile_origin (Finite (4905706736957147 / 562949953421312)) 3 = Inr 26"
  "tile_origin (Finite (4905706736957147 / 562949953421312)) 4 = Inr 34"
  "tile_origin (Finite (4905706736957147 / 562949953421312)) 5 = Inr 43"
  "tile_origin (Finite (4905706736957147 / 562949953421312)) 6 = Inr 52"
  "tile_origin (Finite (4905706736957147 / 562949953421312)) 7 = Inr 60"
  by code_simp+

lemma upt_values:
  "[0..<2] = [0, Suc 0]"
  "[0..<4] = [0, Suc 0, 2, 3]"
  "[0..<8] = [0, Suc 0, 2, 3, 4, 5, 6, 7]"
  by (simp_all add: upt_rec)

text \<open>
  The example of the specification: a 64 by 64 frame with \<open>isize = 32\<close> gives four tiles,
  with origins (0,0), (32,0), (0,32) and (32,32).
\<close>

lemma tiled_boxes_64_32:
  "tiled_boxes (64, 64) 32 =
     Inr [(0, 0, 32, 32), (32, 0, 64, 32), (0, 32, 32, 64), (32, 32, 64, 64)]"
  using tile_origins_64
  by (simp add: tiled_boxes_def tile_count_values tile_stride_values upt_values bnd_def)

text \<open>
  C3. The code has no special case for a tile count of 1: the stride is computed as
  \<open>(32 - 32) / (1 - 1)\<close>, which is NaN (or an infinity when the frame is smaller than the
  tile), the product \<open>0 * stride\<close> is NaN, and the origin is the cast of NaN to int32.
  No tile is placed at the origin.
\<close>

theorem tiled_boxes_single_tile_divides_by_zero:
  "np_truediv (32 - 32) (1 - 1) = NaN \<and>
   np_truediv (20 - 32) (1 - 1) = NegInf \<and>
   tiled_boxes (32, 32) 32 = Inl InvalidCast \<and>
   tiled_boxes (20, 100) 32 = Inl InvalidCast"
  by (simp add: tiled_boxes_def tile_count_values bnd_def np_truediv_def tile_origin_def
        np_mul_def np_floor_def astype_int_def upt_values)

text \<open>The same happens for every square frame of exactly the tile size.\<close>

lemma fl64_one: "fl64 1 = 1"
  by code_simp

lemma tile_count_same:
  assumes "0 < n"
  shows "tile_count n n = Inr 1"
  using assms
  by (simp add: tile_count_def py_truediv_def bnd_def fl64_one np_ceil_def astype_int_def)

lemma tiled_boxes_frame_of_tile_size:
  assumes "0 < n"
  shows "tiled_boxes (n, n) n = Inl InvalidCast"
  using assms
  by (simp add: tiled_boxes_def tile_count_same bnd_def np_truediv_def tile_origin_def
        np_mul_def np_floor_def astype_int_def)

text \<open>
  C5. A frame of 71 rows and 20 columns with \<open>isize = 10\<close>: the row stride \<open>61 / 7\<close> is
  rounded to a float64 slightly below the quotient, seven times the stride is rounded to
  a float64 below 61, and the last row of tiles starts at row 60 instead of 61. The
  tiles end at row 69; pixel row 70 is covered by none.
\<close>

theorem tiled_boxes_leaves_row_uncovered:
  "tiled_boxes (71, 20) 10 =
     Inr [(0, 0, 10, 10), (10, 0, 20, 10), (0, 8, 10, 18), (10, 8, 20, 18),
          (0, 17, 10, 27), (10, 17, 20, 27), (0, 26, 10, 36), (10, 26, 20, 36),
          (0, 34, 10, 44), (10, 34, 20, 44), (0, 43, 10, 53), (10, 43, 20, 53),
          (0, 52, 10, 62), (10, 52, 20, 62), (0, 60, 10, 70), (10, 60, 20, 70)] \<and>
   \<not> pixel_covered
        [(0, 0, 10, 10), (10, 0, 20, 10), (0, 8, 10, 18), (10, 8, 20, 18),
         (0, 17, 10, 27), (10, 17, 20, 27), (0, 26, 10, 36), (10, 26, 20, 36),
         (0, 34, 10, 44), (10, 34, 20, 44), (0, 43, 10, 53), (10, 43, 20, 53),
         (0, 52, 10, 62), (10, 52, 20, 62), (0, 60, 10, 70), (10, 60, 20, 70)] 70 0"
  using tile_origins_71 tile_origins_20
  by (simp add: tiled_boxes_def tile_count_values tile_stride_values upt_values bnd_def
        pixel_covered_def tile_covers_def)

subsection \<open>Rescaling\<close>

text \<open>
  C8. For every batch of boxes and every pair of sizes A and B with nonzero dimensions,
  rescaling from A to B and then from B to A succeeds and returns the original boxes,
  over exact arithmetic.
\<close>

theorem rescale_roundtrip:
  assumes "height_a \<noteq> 0" and "width_a \<noteq> 0" and "height_b \<noteq> 0" and "width_b \<noteq> 0"
  shows "bnd (update_box_sizes_following_image_resize boxes
                (height_a, width_a) (height_b, width_b))
           (\<lambda>boxes'. update_box_sizes_following_image_resize boxes'
                (height_b, width_b) (height_a, width_a)) = Inr boxes"
  using assms
  by (auto simp: update_box_sizes_following_image_resize_def bnd_def Let_def o_def
        intro!: map_idI)

theorem rescale_roundtrip_witness:
  "(600 :: int) \<noteq> 0 \<and> (800 :: int) \<noteq> 0 \<and> (480 :: int) \<noteq> 0 \<and> (640 :: int) \<noteq> 0 \<and>
   update_box_sizes_following_image_resize [(10, 20, 30, 40)] (600, 800) (480, 640) =
     Inr [(8, 16, 24, 32)] \<and>
   bnd (update_box_sizes_following_image_resize [(10, 20, 30, 40)] (600, 800) (480, 640))
     (\<lambda>boxes'. update_box_sizes_following_image_resize boxes' (480, 640) (600, 800)) =
     Inr [(10, 20, 30, 40)]"
  using rescale_roundtrip [of 600 800 480 640 "[(10, 20, 30, 40)]"]
  by (simp add: update_box_sizes_following_image_resize_def)

subsection \<open>The inference path\<close>

text \<open>
  C7. In training mode \<^verbatim>\<open>forward\<close> raises ValueError whatever the argument and the
  network are: the result depends on neither, and no boxes are returned.
\<close>

theorem forward_training_raises:
  assumes "training self"
  shows "forward self net cv2_images = Inl ValueError"
  using assms by (simp add: forward_def)

theorem forward_training_raises_witness:
  "training ((eval_extractor Rcnn)\<lparr>training := True\<rparr>) \<and>
   forward ((eval_extractor Rcnn)\<lparr>training := True\<rparr>) mock_network
     (PyList [Ndarray [100, 100, 3] [(0, 0, 50, 50)]]) = Inl ValueError"
  using forward_training_raises
          [of "(eval_extractor Rcnn)\<lparr>training := True\<rparr>" mock_network
              "PyList [Ndarray [100, 100, 3] [(0, 0, 50, 50)]]"]
  by simp

lemma length_pseudo_scores: "length pseudo_scores = 1000"
  by (simp add: pseudo_scores_def)

lemma pseudo_scores_decreasing: "sorted_wrt (>) pseudo_scores"
  unfolding pseudo_scores_def
  by (simp add: sorted_wrt_map rev_map [symmetric] sorted_wrt_rev del: upt_Suc)

text \<open>
  C10. \<^verbatim>\<open>pseudo_scores\<close> has 1000 strictly decreasing entries, so the slice
  \<^verbatim>\<open>pseudo_scores[:N]\<close> handed to NMS has length \<open>N\<close> (and is strictly decreasing)
  if and only if \<open>N \<le> 1000\<close>.
\<close>

theorem pseudo_scores_slice:
  "(length (take N pseudo_scores) = N \<and> sorted_wrt (>) (take N pseudo_scores)) \<longleftrightarrow>
   N \<le> 1000"
  using pseudo_scores_decreasing length_pseudo_scores
  by (auto simp: sorted_wrt_take min_def)

theorem pseudo_scores_slice_witness:
  "length (take 1000 pseudo_scores) = 1000 \<and> sorted_wrt (>) (take 1000 pseudo_scores) \<and>
   length (take 1001 pseudo_scores) \<noteq> 1001"
  using pseudo_scores_slice [of 1000] pseudo_scores_slice [of 1001]
  by (simp add: length_pseudo_scores)

lemma take_pseudo_scores_1: "take (Suc 0) pseudo_scores = [1000]"
  by (simp add: pseudo_scores_def take_map rev_map [symmetric] take_rev drop_map drop_upt
        del: upt_Suc)

lemmas forward_defs =
  forward_def forward_stage_def rpn_image_def rcnn_image_def patch_step_def
  postprocess_detections_def postprocess_image_def mock_network_def eval_extractor_def
  to_input_def original_image_size_def index_select_def nms_def remove_small_boxes_def
  clip_boxes_to_image_def clip_box_def iou_def box_area_def fbox_width_def fbox_height_def
  update_box_sizes_following_image_resize_def bnd_def Let_def

text \<open>
  C1. Two frames, in evaluation mode, with one candidate box each. In both stages
  \<^verbatim>\<open>forward\<close> returns the single array \<^verbatim>\<open>output_boxes[0]\<close>: the boxes of the first
  frame. The boxes of the second frame and, in the stage \<^verbatim>\<open>"rcnn"\<close>, all scores are
  computed and dropped.
\<close>

theorem forward_returns_first_frame_only:
  "forward (eval_extractor Rpn) mock_network
     (PyList [Ndarray [100, 100, 3] [(0, 0, 50, 50)],
              Ndarray [100, 100, 3] [(10, 10, 80, 80)]]) = Inr (Array [(0, 0, 50, 50)]) \<and>
   forward (eval_extractor Rcnn) mock_network
     (PyList [Ndarray [100, 100, 3] [(0, 0, 50, 50)],
              Ndarray [100, 100, 3] [(10, 10, 80, 80)]]) = Inr (Array [(0, 0, 50, 50)])"
  by (simp add: forward_defs take_pseudo_scores_1 length_pseudo_scores)

text \<open>With \<^verbatim>\<open>use_original\<close> set, the same call returns one array per frame.\<close>

lemma forward_use_original_per_frame:
  "forward ((eval_extractor Rpn)\<lparr>use_original := True\<rparr>) mock_network
     (PyList [Ndarray [100, 100, 3] [(0, 0, 50, 50)],
              Ndarray [100, 100, 3] [(10, 10, 80, 80)]]) =
   Inr (ArrayList [[(0, 0, 50, 50)], [(10, 10, 80, 80)]])"
  by (simp add: forward_defs)

text \<open>
  Without \<^verbatim>\<open>use_original\<close>, every successful call returns one array, whatever the
  number of frames and the stage.
\<close>

lemma forward_returns_one_array:
  assumes "forward self net cv2_images = Inr r" and "\<not> use_original self"
  shows "\<exists>boxes. r = Array boxes"
  using assms
  by (auto simp: forward_def forward_stage_def bnd_def Let_def
        split: if_splits argument.splits list.splits pyobj.splits sum.splits stage.splits
          prod.splits)

text \<open>
  With the NMS of the specification, which rejects boxes and scores of different
  lengths, the synthetic-rank NMS fails exactly when there are more than 1000 boxes.
\<close>

lemma nms_pseudo_scores_fails_iff:
  "nms boxes (take (length boxes) pseudo_scores) t = Inl RuntimeError \<longleftrightarrow>
   1000 < length boxes"
  by (auto simp: nms_def length_pseudo_scores)

end
